theory Spec2Isabelle
  imports Complex_Main "HOL-Library.Multiset"
begin

section \<open>Python values\<close>

text \<open>
  A Python \<open>str\<close> is a sequence of Unicode code points; a code point is a natural number.
  \<open>lit\<close> turns an ASCII literal into such a string.
\<close>

type_synonym pystr = "nat list"

definition lit :: "string \<Rightarrow> pystr" where
  "lit s = map of_char s"

text \<open>
  A Python \<open>float\<close>. \<open>Num r\<close> is a finite value, idealised as the real number it denotes
  (rounding and overflow of arithmetic are not modelled); the three special values are
  kept, because every comparison with \<open>NaN\<close> is false and the guards of the program are
  comparisons.
\<close>

datatype pyfloat = Num real | PInf | NInf | NaN




text \<open>
  The values \<open>json.loads\<close> produces. A dict is an association list read with \<open>map_of\<close>.
\<close>

datatype json =
    JNull
  | JBool bool
  | JInt int
  | JFloat pyfloat
  | JStr pystr
  | JList "json list"
  | JDict "(pystr \<times> json) list"

text \<open>
  The exceptions the code raises or lets through. An \<open>EnrollmentError\<close> carries which of
  its three \<open>raise\<close> statements it comes from: the embedding model cannot be loaded, the
  duration of a clip is not positive, or ffmpeg exits with a status other than 0.
\<close>

datatype enroll_reason = ModelUnavailable | NonPositiveDuration | FfmpegFailed int

datatype py_error =
    JSONDecodeError
  | FileNotFoundError
  | AttributeError
  | TypeError
  | ValueError
  | OverflowError
  | EnrollmentError enroll_reason
  | DownloadError
  | WhisperXRuntimeError
  | RuntimeError

text \<open>\<open>d.get(k, dflt)\<close>.\<close>

definition dict_get :: "(pystr \<times> json) list \<Rightarrow> pystr \<Rightarrow> json \<Rightarrow> json" where
  "dict_get d k dflt = (case map_of d k of None \<Rightarrow> dflt | Some v \<Rightarrow> v)"

text \<open>Truth value of an object, as \<open>not x\<close> and \<open>x or y\<close> test it.\<close>

fun truthy :: "json \<Rightarrow> bool" where
  "truthy JNull = False"
| "truthy (JBool b) = b"
| "truthy (JInt i) = (i \<noteq> 0)"
| "truthy (JFloat f) = (f \<noteq> Num 0)"
| "truthy (JStr s) = (s \<noteq> [])"
| "truthy (JList xs) = (xs \<noteq> [])"
| "truthy (JDict d) = (d \<noteq> [])"

text \<open>
  Iterating over a value in a \<open>for\<close> loop: a list gives its elements, a string its
  characters, a dict its keys; anything else is not iterable.
\<close>

fun py_iter :: "json \<Rightarrow> py_error + json list" where
  "py_iter (JList xs) = Inr xs"
| "py_iter (JStr s) = Inr (map (\<lambda>c. JStr [c]) s)"
| "py_iter (JDict d) = Inr (map (\<lambda>kv. JStr (fst kv)) d)"
| "py_iter _ = Inl TypeError"

text \<open>
  \<open>float(x)\<close>. Reading a string as a float literal is left to the parameter \<open>parse\<close>
  (\<open>None\<close>: not a float literal). An int beyond the range of a double raises.
\<close>

fun py_float :: "(pystr \<Rightarrow> pyfloat option) \<Rightarrow> json \<Rightarrow> py_error + pyfloat" where
  "py_float parse (JFloat f) = Inr f"
| "py_float parse (JInt i) =
     (if \<bar>i\<bar> < 2 ^ 1024 - 2 ^ 970 then Inr (Num (of_int i)) else Inl OverflowError)"
| "py_float parse (JBool b) = Inr (Num (if b then 1 else 0))"
| "py_float parse (JStr s) = (case parse s of None \<Rightarrow> Inl ValueError | Some f \<Rightarrow> Inr f)"
| "py_float parse _ = Inl TypeError"

text \<open>
  \<open>str.strip()\<close> removes leading and trailing whitespace; \<open>is_space\<close> is the table of
  \<open>str.isspace\<close>.
\<close>

definition is_space :: "nat \<Rightarrow> bool" where
  "is_space c \<longleftrightarrow>
     (9 \<le> c \<and> c \<le> 13) \<or> (28 \<le> c \<and> c \<le> 32) \<or> c = 133 \<or> c = 160 \<or> c = 5760
     \<or> (8192 \<le> c \<and> c \<le> 8202) \<or> c = 8232 \<or> c = 8233 \<or> c = 8239 \<or> c = 8287
     \<or> c = 12288"

definition strip :: "pystr \<Rightarrow> pystr" where
  "strip s = rev (dropWhile is_space (rev (dropWhile is_space s)))"

section \<open>The world and the outside\<close>

text \<open>
  A path is a root or \<open>parent / name\<close>, as \<open>pathlib\<close> writes it. The world holds the
  text files, the \<open>.npy\<close> files and the warnings logged; creating a directory is not
  tracked.
\<close>

datatype path = Path pystr | Div path pystr

record world =
  texts :: "path \<Rightarrow> pystr option"
  arrays :: "path \<Rightarrow> real list option"
  warnings :: "py_error list"

text \<open>
  What the program takes from outside. For the post-processing: the JSON parser (\<open>None\<close>:
  the document does not parse), the reading of a float literal, and \<open>str()\<close> of a value
  that is not a string. For the enrollment: whether the embedding model can be loaded,
  the exit status of ffmpeg for an audio file, a start and a duration, the vector the
  model returns for the clip so cut, and the rounding to single precision. For the
  pipeline: the tests and names of \<open>pathlib\<close>, and the three steps that fetch the audio
  and run WhisperX, each of which changes the world or raises.
\<close>

type_synonym clip = "path \<times> pyfloat \<times> pyfloat"

record env =
  json_loads :: "pystr \<Rightarrow> json option"
  float_of_str :: "pystr \<Rightarrow> pyfloat option"
  str_of_value :: "json \<Rightarrow> pystr"
  model_available :: bool
  ffmpeg :: "path \<Rightarrow> pyfloat \<Rightarrow> pyfloat \<Rightarrow> int"
  embedder :: "clip \<Rightarrow> real list"
  float32 :: "real \<Rightarrow> real"
  source_exists :: "pystr \<Rightarrow> bool"
  path_name :: "pystr \<Rightarrow> pystr"
  path_stem :: "path \<Rightarrow> pystr"
  copy2 :: "pystr \<Rightarrow> path \<Rightarrow> world \<Rightarrow> py_error + world"
  download_audio :: "pystr \<Rightarrow> path \<Rightarrow> world \<Rightarrow> py_error + world"
  run_whisperx :: "path \<Rightarrow> path \<Rightarrow> world \<Rightarrow> py_error + world"

section \<open>postprocess.py\<close>

subsection \<open>Segment\<close>

text \<open>
  The loader stores in \<open>speaker\<close> whatever value the record carries, so the field holds
  a JSON value; the other fields have the declared types.
\<close>

record Segment =
  speaker :: json
  "text" :: pystr
  start :: pyfloat
  "end" :: pyfloat

subsection \<open>load_segments\<close>

text \<open>
  The body of the loop over the records: \<open>Inr None\<close> is \<open>continue\<close>, \<open>Inr (Some s)\<close> is
  the segment appended, \<open>Inl e\<close> an exception. A record that is not a dict has no
  \<open>get\<close>; a text that is truthy and not a string has no \<open>strip\<close>.
\<close>

definition load_record :: "(pystr \<Rightarrow> pyfloat option) \<Rightarrow> json \<Rightarrow> py_error + Segment option" where
  "load_record parse raw =
     (case raw of
        JDict d \<Rightarrow>
          (let spk = dict_get d (lit ''speaker'') (JStr (lit ''SPEAKER''));
               t = dict_get d (lit ''text'') JNull
           in case (if truthy t then t else JStr []) of
                JStr s \<Rightarrow>
                  (let txt = strip s
                   in if txt = [] then Inr None
                      else (case py_float parse (dict_get d (lit ''start'') (JFloat (Num 0))) of
                              Inl e \<Rightarrow> Inl e
                            | Inr st \<Rightarrow>
                                (case py_float parse (dict_get d (lit ''end'') (JFloat (Num 0))) of
                                   Inl e \<Rightarrow> Inl e
                                 | Inr en \<Rightarrow>
                                     Inr (Some \<lparr>speaker = spk, text = txt,
                                                 start = st, end = en\<rparr>))))
              | _ \<Rightarrow> Inl AttributeError)
      | _ \<Rightarrow> Inl AttributeError)"

fun load_loop ::
  "(pystr \<Rightarrow> pyfloat option) \<Rightarrow> json list \<Rightarrow> Segment list \<Rightarrow> py_error + Segment list" where
  "load_loop parse [] segments = Inr segments"
| "load_loop parse (raw # rest) segments =
     (case load_record parse raw of
        Inl e \<Rightarrow> Inl e
      | Inr None \<Rightarrow> load_loop parse rest segments
      | Inr (Some s) \<Rightarrow> load_loop parse rest (segments @ [s]))"

text \<open>
  What \<open>load_segments\<close> does with the parsed document \<open>data\<close>:
  \<open>data.get("segments", [])\<close> needs a dict, and the loop an iterable.
\<close>

definition load_document :: "(pystr \<Rightarrow> pyfloat option) \<Rightarrow> json \<Rightarrow> py_error + Segment list" where
  "load_document parse data =
     (case data of
        JDict d \<Rightarrow>
          (case py_iter (dict_get d (lit ''segments'') (JList [])) of
             Inl e \<Rightarrow> Inl e
           | Inr raws \<Rightarrow> load_loop parse raws [])
      | _ \<Rightarrow> Inl AttributeError)"

text \<open>
  \<open>load_segments\<close>: the file is read and parsed, and the document loaded. A file that
  is missing and a document that does not parse raise.
\<close>

definition load_segments :: "env \<Rightarrow> world \<Rightarrow> path \<Rightarrow> py_error + Segment list" where
  "load_segments ev w json_path =
     (case texts w json_path of
        None \<Rightarrow> Inl FileNotFoundError
      | Some content \<Rightarrow>
          (case json_loads ev content of
             None \<Rightarrow> Inl JSONDecodeError
           | Some data \<Rightarrow> load_document (float_of_str ev) data))"

subsection \<open>apply_speaker_map\<close>

text \<open>
  \<open>mapping.get(speaker, speaker)\<close> on a dict with string keys: a list or a dict cannot be
  hashed; a value that is not a string equals no key.
\<close>

fun map_get :: "(pystr \<times> pystr) list \<Rightarrow> json \<Rightarrow> py_error + json" where
  "map_get m (JStr s) = Inr (case map_of m s of None \<Rightarrow> JStr s | Some n \<Rightarrow> JStr n)"
| "map_get m (JList xs) = Inl TypeError"
| "map_get m (JDict d) = Inl TypeError"
| "map_get m v = Inr v"

fun apply_speaker_map :: "Segment list \<Rightarrow> (pystr \<times> pystr) list \<Rightarrow> py_error + Segment list" where
  "apply_speaker_map [] mapping = Inr []"
| "apply_speaker_map (segment # rest) mapping =
     (case map_get mapping (speaker segment) of
        Inl e \<Rightarrow> Inl e
      | Inr spk \<Rightarrow>
          (case apply_speaker_map rest mapping of
             Inl e \<Rightarrow> Inl e
           | Inr mapped \<Rightarrow>
               Inr (\<lparr>speaker = spk, text = text segment,
                      start = start segment, end = end segment\<rparr> # mapped)))"

subsection \<open>segments_to_text\<close>

text \<open>\<open>int(x)\<close> of a float truncates towards zero; it raises on the special values.\<close>

fun py_int :: "pyfloat \<Rightarrow> py_error + int" where
  "py_int (Num r) = Inr (if 0 \<le> r then \<lfloor>r\<rfloor> else \<lceil>r\<rceil>)"
| "py_int NaN = Inl ValueError"
| "py_int _ = Inl OverflowError"

text \<open>The decimal digits of a natural number, and \<open>format(n, "02d")\<close>.\<close>

fun digits :: "nat \<Rightarrow> pystr" where
  "digits n = (if n < 10 then [48 + n] else digits (n div 10) @ [48 + n mod 10])"

declare digits.simps [simp del]

definition format_02d :: "int \<Rightarrow> pystr" where
  "format_02d n =
     (if n < 0 then 45 # digits (nat (- n))
      else if n < 10 then 48 # digits (nat n)
      else digits (nat n))"

definition format_time :: "pyfloat \<Rightarrow> py_error + pystr" where
  "format_time timestamp =
     (case py_int timestamp of
        Inl e \<Rightarrow> Inl e
      | Inr seconds0 \<Rightarrow>
          (let minutes0 = seconds0 div 60; seconds = seconds0 mod 60;
               hours = minutes0 div 60; minutes = minutes0 mod 60
           in Inr (format_02d hours @ lit '':'' @ format_02d minutes @ lit '':''
                   @ format_02d seconds)))"

text \<open>The en dash, U+2013.\<close>

definition en_dash :: pystr where
  "en_dash = [8211]"

definition pretty_time :: "Segment \<Rightarrow> py_error + pystr" where
  "pretty_time segment =
     (case format_time (start segment) of
        Inl e \<Rightarrow> Inl e
      | Inr a \<Rightarrow>
          (case format_time (end segment) of
             Inl e \<Rightarrow> Inl e
           | Inr b \<Rightarrow> Inr (lit ''['' @ a @ en_dash @ b @ lit '']'')))"

text \<open>A value in an f-string: a string stands for itself.\<close>

definition py_str :: "env \<Rightarrow> json \<Rightarrow> pystr" where
  "py_str ev v = (case v of JStr s \<Rightarrow> s | _ \<Rightarrow> str_of_value ev v)"

definition render_line :: "env \<Rightarrow> Segment \<Rightarrow> py_error + pystr" where
  "render_line ev segment =
     (case pretty_time segment of
        Inl e \<Rightarrow> Inl e
      | Inr t \<Rightarrow> Inr (t @ lit '' '' @ py_str ev (speaker segment) @ lit '': '' @ text segment))"

text \<open>A list comprehension whose element expression may raise.\<close>

fun comprehension :: "('a \<Rightarrow> py_error + 'b) \<Rightarrow> 'a list \<Rightarrow> py_error + 'b list" where
  "comprehension f [] = Inr []"
| "comprehension f (x # xs) =
     (case f x of
        Inl e \<Rightarrow> Inl e
      | Inr y \<Rightarrow> (case comprehension f xs of Inl e \<Rightarrow> Inl e | Inr ys \<Rightarrow> Inr (y # ys)))"

text \<open>\<open>sep.join(lines)\<close>.\<close>

fun join :: "pystr \<Rightarrow> pystr list \<Rightarrow> pystr" where
  "join sep [] = []"
| "join sep [l] = l"
| "join sep (l # ls) = l @ sep @ join sep ls"

definition segments_to_text :: "env \<Rightarrow> Segment list \<Rightarrow> py_error + pystr" where
  "segments_to_text ev segments =
     (case comprehension (render_line ev) segments of
        Inl e \<Rightarrow> Inl e
      | Inr lines \<Rightarrow> Inr (join [10] lines))"


subsection \<open>apply_speaker_map on an object store\<close>

text \<open>
  The same loop on an object store, to see what it allocates and what it leaves alone:
  the store is the list of the Segment objects, an object's address its index, and
  each \<open>Segment(...)\<close> appends a new object. \<open>segments\<close> and \<open>mapped\<close> are lists of
  addresses.
\<close>

fun remap_loop ::
  "Segment list \<Rightarrow> nat list \<Rightarrow> (pystr \<times> pystr) list \<Rightarrow> nat list
     \<Rightarrow> Segment list \<times> (py_error + nat list)" where
  "remap_loop h [] mapping mapped = (h, Inr mapped)"
| "remap_loop h (a # rest) mapping mapped =
     (case map_get mapping (speaker (h ! a)) of
        Inl e \<Rightarrow> (h, Inl e)
      | Inr spk \<Rightarrow>
          remap_loop (h @ [\<lparr>speaker = spk, text = text (h ! a),
                              start = start (h ! a), end = end (h ! a)\<rparr>])
            rest mapping (mapped @ [length h]))"

definition apply_speaker_map_store ::
  "Segment list \<Rightarrow> nat list \<Rightarrow> (pystr \<times> pystr) list \<Rightarrow> Segment list \<times> (py_error + nat list)" where
  "apply_speaker_map_store h segments mapping = remap_loop h segments mapping []"

section \<open>speaker_enrollment.py\<close>





fun hashable :: "json \<Rightarrow> bool" where
  "hashable (JList xs) = False"
| "hashable (JDict d) = False"
| "hashable v = True"












text \<open>\<open>speaker_map.get(speaker_code, speaker_code)\<close> for a key of \<open>grouped\<close>.\<close>

definition speaker_name :: "(pystr \<times> pystr) list \<Rightarrow> json \<Rightarrow> json" where
  "speaker_name m code =
     (case code of
        JStr s \<Rightarrow> (case map_of m s of None \<Rightarrow> code | Some n \<Rightarrow> JStr n)
      | _ \<Rightarrow> code)"



section \<open>pipeline.py\<close>






section \<open>Vocabulary of the properties\<close>

text \<open>
  The text a record carries (the empty string when it has none), and whether it is
  blank: empty once leading and trailing whitespace is trimmed.
\<close>

definition text_of :: "json \<Rightarrow> pystr" where
  "text_of raw =
     (case raw of
        JDict d \<Rightarrow> (case map_of d (lit ''text'') of Some (JStr s) \<Rightarrow> s | _ \<Rightarrow> [])
      | _ \<Rightarrow> [])"

definition blank_text :: "json \<Rightarrow> bool" where
  "blank_text raw = list_all is_space (text_of raw)"





text \<open>A segment with \<open>map.get(speaker, speaker)\<close> for its speaker.\<close>

definition remap :: "(pystr \<times> pystr) list \<Rightarrow> Segment \<Rightarrow> Segment" where
  "remap m seg = \<lparr>speaker = speaker_name m (speaker seg), text = text seg,
                  start = start seg, end = end seg\<rparr>"







text \<open>Loading a transcript, then rendering it.\<close>

definition load_render :: "env \<Rightarrow> world \<Rightarrow> path \<Rightarrow> py_error + pystr" where
  "load_render ev w json_path =
     (case load_segments ev w json_path of
        Inl e \<Rightarrow> Inl e
      | Inr segments \<Rightarrow> segments_to_text ev segments)"













section \<open>Sample inputs\<close>

definition empty_world :: world where
  "empty_world = \<lparr>texts = (\<lambda>p. None), arrays = (\<lambda>p. None), warnings = []\<rparr>"

definition sample_env :: "json \<Rightarrow> env" where
  "sample_env doc =
     \<lparr>json_loads = (\<lambda>content. Some doc), float_of_str = (\<lambda>s. None),
      str_of_value = (\<lambda>v. lit ''?''), model_available = True,
      ffmpeg = (\<lambda>audio st d. 0), embedder = (\<lambda>wav. [1, 3]), float32 = (\<lambda>x. x),
      source_exists = (\<lambda>s. True), path_name = (\<lambda>s. s), path_stem = (\<lambda>p. lit ''audio''),
      copy2 = (\<lambda>s p w. Inr w), download_audio = (\<lambda>s p w. Inr w),
      run_whisperx = (\<lambda>audio out w.
        Inr (w\<lparr>texts := (texts w)(Div out (lit ''audio.json'') \<mapsto> [])\<rparr>))\<rparr>"

definition sample_world :: world where
  "sample_world = empty_world\<lparr>texts := [Path (lit ''t.json'') \<mapsto> []]\<rparr>"

definition document :: "json list \<Rightarrow> json" where
  "document raws = JDict [(lit ''segments'', JList raws)]"

definition sample_records :: "json list" where
  "sample_records =
     [JDict [(lit ''speaker'', JStr (lit ''A'')), (lit ''text'', JStr (lit '' hello '')),
             (lit ''start'', JFloat (Num 65.2)), (lit ''end'', JInt 70)],
      JDict [(lit ''speaker'', JStr (lit ''B'')), (lit ''text'', JStr (lit ''   ''))],
      JDict [(lit ''text'', JStr (lit ''bye''))]]"

definition sample_segments :: "Segment list" where
  "sample_segments =
     [\<lparr>speaker = JStr (lit ''A''), text = lit ''hello'', start = Num 65.2, end = Num 70\<rparr>,
      \<lparr>speaker = JStr (lit ''SPEAKER''), text = lit ''bye'', start = Num 0, end = Num 0\<rparr>]"











section \<open>Properties of the loader\<close>

lemma strip_empty_iff: "strip s = [] \<longleftrightarrow> list_all is_space s"
proof -
  have "dropWhile is_space s = [] \<or> \<not> is_space (hd (dropWhile is_space s))"
    using hd_dropWhile by blast
  then have "(\<forall>x\<in>set (dropWhile is_space s). is_space x) \<longleftrightarrow> dropWhile is_space s = []"
    by (cases "dropWhile is_space s") (auto dest: set_dropWhileD)
  then have "strip s = [] \<longleftrightarrow> dropWhile is_space s = []"
    by (simp add: strip_def)
  then show ?thesis
    by (simp add: list_all_iff)
qed

lemma load_loop_acc:
  "load_loop parse raws acc =
     (case load_loop parse raws [] of Inl e \<Rightarrow> Inl e | Inr xs \<Rightarrow> Inr (acc @ xs))"
proof (induction raws arbitrary: acc)
  case Nil
  then show ?case by simp
next
  case (Cons raw rest)
  show ?case
  proof (cases "load_record parse raw")
    case (Inl e)
    then show ?thesis by simp
  next
    case (Inr r)
    show ?thesis
    proof (cases r)
      case None
      with Inr show ?thesis using Cons.IH [of acc] by simp
    next
      case (Some s)
      with Inr show ?thesis
        using Cons.IH [of "acc @ [s]"] Cons.IH [of "[s]"]
        by (simp split: sum.splits)
    qed
  qed
qed

lemma load_loop_Cons:
  "load_loop parse (raw # rest) [] =
     (case load_record parse raw of
        Inl e \<Rightarrow> Inl e
      | Inr r \<Rightarrow>
          (case load_loop parse rest [] of
             Inl e \<Rightarrow> Inl e
           | Inr xs \<Rightarrow> Inr ((case r of None \<Rightarrow> [] | Some s \<Rightarrow> [s]) @ xs)))"
  using load_loop_acc [of parse rest "[s]" for s]
  by (simp split: sum.splits option.splits)

lemma load_record_skip:
  "load_record parse raw = Inr None \<Longrightarrow> blank_text raw"
  by (auto simp: load_record_def blank_text_def text_of_def strip_empty_iff dict_get_def Let_def
      split: json.splits option.splits if_splits sum.splits)

lemma load_record_keep:
  "load_record parse raw = Inr (Some s) \<Longrightarrow>
     \<not> blank_text raw \<and> text s = strip (text_of raw) \<and> text s \<noteq> []"
  by (auto simp: load_record_def blank_text_def text_of_def strip_empty_iff dict_get_def Let_def
      split: json.splits option.splits if_splits sum.splits)









lemma load_segments_Inr:
  "load_segments ev w p = Inr segs \<longleftrightarrow>
     (\<exists>content d raws. texts w p = Some content \<and> json_loads ev content = Some (JDict d)
        \<and> py_iter (dict_get d (lit ''segments'') (JList [])) = Inr raws
        \<and> load_loop (float_of_str ev) raws [] = Inr segs)"
  by (auto simp: load_segments_def load_document_def split: option.splits json.splits sum.splits)

lemma load_loop_kept:
  "load_loop parse raws [] = Inr segs \<Longrightarrow>
     list_all2 (\<lambda>s raw. load_record parse raw = Inr (Some s)) segs
       (filter (\<lambda>raw. \<not> blank_text raw) raws)
     \<and> length segs + length (filter blank_text raws) = length raws"
proof (induction raws arbitrary: segs)
  case Nil
  then show ?case by simp
next
  case (Cons raw rest)
  from Cons.prems obtain r xs where r: "load_record parse raw = Inr r"
    and xs: "load_loop parse rest [] = Inr xs"
    and segs: "segs = (case r of None \<Rightarrow> [] | Some s \<Rightarrow> [s]) @ xs"
    by (auto simp: load_loop_Cons simp del: load_loop.simps split: sum.splits)
  show ?case
  proof (cases r)
    case None
    with r have "blank_text raw" by (simp add: load_record_skip)
    with None segs Cons.IH [OF xs] show ?thesis by simp
  next
    case (Some s)
    with r have "\<not> blank_text raw" by (simp add: load_record_keep)
    with Some r segs Cons.IH [OF xs] show ?thesis by simp
  qed
qed


lemma list_all2_lhs:
  "list_all2 R xs ys \<Longrightarrow> (\<And>x y. R x y \<Longrightarrow> P x) \<Longrightarrow> list_all P xs"
  by (induction rule: list_all2_induct) auto

text \<open>
  Claim C8. When loading returns, the document is a dict whose \<open>segments\<close> value was
  iterated as the records \<open>raws\<close>; the segments are, in order, the loads of exactly the
  records whose text is not blank, each with the trimmed text of its record; their
  number and the number of blank records add up to the number of records; and no
  segment has an empty text.
\<close>

theorem load_segments_skips_blank_text:
  assumes "load_segments ev w p = Inr segs"
  shows "\<exists>content d raws. texts w p = Some content \<and> json_loads ev content = Some (JDict d)
     \<and> py_iter (dict_get d (lit ''segments'') (JList [])) = Inr raws
     \<and> list_all2 (\<lambda>s raw. load_record (float_of_str ev) raw = Inr (Some s)
                            \<and> text s = strip (text_of raw))
          segs (filter (\<lambda>raw. \<not> blank_text raw) raws)
     \<and> length segs + length (filter blank_text raws) = length raws
     \<and> list_all (\<lambda>s. text s \<noteq> []) segs"
proof -
  from assms obtain content d raws where
    1: "texts w p = Some content" "json_loads ev content = Some (JDict d)"
       "py_iter (dict_get d (lit ''segments'') (JList [])) = Inr raws"
    and loop: "load_loop (float_of_str ev) raws [] = Inr segs"
    by (auto simp: load_segments_Inr)
  let ?kept = "filter (\<lambda>raw. \<not> blank_text raw) raws"
  from load_loop_kept [OF loop]
  have k: "list_all2 (\<lambda>s raw. load_record (float_of_str ev) raw = Inr (Some s)) segs ?kept"
    and n: "length segs + length (filter blank_text raws) = length raws"
    by simp_all
  from k have "list_all2 (\<lambda>s raw. load_record (float_of_str ev) raw = Inr (Some s)
                            \<and> text s = strip (text_of raw)) segs ?kept"
    by (rule list_all2_mono) (simp add: load_record_keep)
  moreover from k have "list_all (\<lambda>s. text s \<noteq> []) segs"
    by (rule list_all2_lhs) (use load_record_keep in blast)
  ultimately show ?thesis using 1 n by blast
qed

lemma sample_load:
  "load_segments (sample_env (document sample_records)) sample_world (Path (lit ''t.json''))
    = Inr [\<lparr>speaker = JStr (lit ''A''), text = lit ''hello'', start = Num 65.2, end = Num 70\<rparr>,
           \<lparr>speaker = JStr (lit ''SPEAKER''), text = lit ''bye'', start = Num 0, end = Num 0\<rparr>]"
  by (simp add: load_segments_def sample_env_def sample_world_def empty_world_def document_def
      sample_records_def load_document_def load_record_def dict_get_def lit_def strip_def
      is_space_def)

lemma sample_load_segments:
  "load_segments (sample_env (document sample_records)) sample_world (Path (lit ''t.json''))
    = Inr sample_segments"
  by (simp add: sample_load sample_segments_def)

text \<open>
  Three records, the second with a blank text: two segments are loaded.
\<close>

theorem load_segments_skips_blank_text_witness:
  "load_segments (sample_env (document sample_records)) sample_world (Path (lit ''t.json''))
     = Inr sample_segments
   \<and> (\<exists>content d raws. texts sample_world (Path (lit ''t.json'')) = Some content
     \<and> json_loads (sample_env (document sample_records)) content = Some (JDict d)
     \<and> py_iter (dict_get d (lit ''segments'') (JList [])) = Inr raws
     \<and> list_all2 (\<lambda>s raw. load_record (float_of_str (sample_env (document sample_records))) raw
                              = Inr (Some s) \<and> text s = strip (text_of raw))
          sample_segments (filter (\<lambda>raw. \<not> blank_text raw) raws)
     \<and> length sample_segments + length (filter blank_text raws) = length raws
     \<and> list_all (\<lambda>s. text s \<noteq> []) sample_segments)"
  by (rule conjI [OF sample_load_segments load_segments_skips_blank_text [OF sample_load_segments]])

lemma load_record_speaker:
  "load_record parse raw = Inr (Some s) \<Longrightarrow>
     \<exists>r. raw = JDict r
       \<and> speaker s = (case map_of r (lit ''speaker'') of None \<Rightarrow> JStr (lit ''SPEAKER'') | Some v \<Rightarrow> v)"
  by (auto simp: load_record_def dict_get_def Let_def
      split: json.splits option.splits if_splits sum.splits)

text \<open>
  Claim C2, as amended. Every segment loaded has the speaker value of its record when
  the record has the key \<open>speaker\<close>, whatever the value, and the placeholder
  \<open>SPEAKER\<close> when the key is missing.
\<close>

theorem load_segments_speaker_label:
  assumes "load_segments ev w p = Inr segs"
  shows "\<exists>content d raws. texts w p = Some content \<and> json_loads ev content = Some (JDict d)
     \<and> py_iter (dict_get d (lit ''segments'') (JList [])) = Inr raws
     \<and> list_all2 (\<lambda>s raw. \<exists>r. raw = JDict r
            \<and> speaker s = (case map_of r (lit ''speaker'') of
                              None \<Rightarrow> JStr (lit ''SPEAKER'') | Some v \<Rightarrow> v))
          segs (filter (\<lambda>raw. \<not> blank_text raw) raws)"
proof -
  from assms obtain content d raws where
    1: "texts w p = Some content" "json_loads ev content = Some (JDict d)"
       "py_iter (dict_get d (lit ''segments'') (JList [])) = Inr raws"
    and loop: "load_loop (float_of_str ev) raws [] = Inr segs"
    by (auto simp: load_segments_Inr)
  from load_loop_kept [OF loop]
  have "list_all2 (\<lambda>s raw. load_record (float_of_str ev) raw = Inr (Some s)) segs
          (filter (\<lambda>raw. \<not> blank_text raw) raws)"
    by simp
  then have "list_all2 (\<lambda>s raw. \<exists>r. raw = JDict r
            \<and> speaker s = (case map_of r (lit ''speaker'') of
                              None \<Rightarrow> JStr (lit ''SPEAKER'') | Some v \<Rightarrow> v))
          segs (filter (\<lambda>raw. \<not> blank_text raw) raws)"
    by (rule list_all2_mono) (rule load_record_speaker)
  with 1 show ?thesis by blast
qed

theorem load_segments_speaker_label_witness:
  "load_segments (sample_env (document sample_records)) sample_world (Path (lit ''t.json''))
     = Inr sample_segments
   \<and> (\<exists>content d raws. texts sample_world (Path (lit ''t.json'')) = Some content
     \<and> json_loads (sample_env (document sample_records)) content = Some (JDict d)
     \<and> py_iter (dict_get d (lit ''segments'') (JList [])) = Inr raws
     \<and> list_all2 (\<lambda>s raw. \<exists>r. raw = JDict r
            \<and> speaker s = (case map_of r (lit ''speaker'') of
                              None \<Rightarrow> JStr (lit ''SPEAKER'') | Some v \<Rightarrow> v))
          sample_segments (filter (\<lambda>raw. \<not> blank_text raw) raws))"
  by (rule conjI [OF sample_load_segments load_segments_speaker_label [OF sample_load_segments]])

text \<open>
  Claim C2 as stated fails: a record with the speaker label \<open>""\<close> survives loading with
  an empty speaker label, not the placeholder.
\<close>

theorem load_segments_speaker_label_counterexample:
  "load_segments
     (sample_env (document [JDict [(lit ''speaker'', JStr []), (lit ''text'', JStr (lit ''hi''))]]))
     sample_world (Path (lit ''t.json''))
   = Inr [\<lparr>speaker = JStr [], text = lit ''hi'', start = Num 0, end = Num 0\<rparr>]"
  by (simp add: load_segments_def sample_env_def sample_world_def empty_world_def document_def
      load_document_def load_record_def dict_get_def lit_def strip_def is_space_def)






section \<open>Properties of the remapper\<close>

lemma map_get_hashable: "hashable v \<Longrightarrow> map_get m v = Inr (speaker_name m v)"
  by (cases v) (simp_all add: speaker_name_def)

lemma map_get_unhashable: "\<not> hashable v \<Longrightarrow> map_get m v = Inl TypeError"
  by (cases v) simp_all

lemma map_get_eq:
  "map_get m v = (if hashable v then Inr (speaker_name m v) else Inl TypeError)"
  by (simp add: map_get_hashable map_get_unhashable)

lemma apply_speaker_map_eq:
  "apply_speaker_map segs m =
     (if list_all (\<lambda>s. hashable (speaker s)) segs then Inr (map (remap m) segs)
      else Inl TypeError)"
  by (induction segs) (auto simp: map_get_eq remap_def)

lemma remap_loop_eq:
  assumes "list_all (\<lambda>a. a < length h \<and> hashable (speaker (h ! a))) refs"
  shows "remap_loop h refs m mapped =
           (h @ map (\<lambda>a. remap m (h ! a)) refs,
            Inr (mapped @ [length h ..< length h + length refs]))"
  using assms
proof (induction refs arbitrary: h mapped)
  case Nil
  then show ?case by simp
next
  case (Cons a refs)
  let ?h = "h @ [remap m (h ! a)]"
  have "list_all (\<lambda>b. b < length ?h \<and> hashable (speaker (?h ! b))) refs"
    using Cons.prems by (auto simp: list_all_iff nth_append)
  from Cons.IH [OF this, of "mapped @ [length h]"]
  have "remap_loop ?h refs m (mapped @ [length h]) =
          (?h @ map (\<lambda>b. remap m (?h ! b)) refs,
           Inr ((mapped @ [length h]) @ [length ?h ..< length ?h + length refs]))" .
  moreover have "map (\<lambda>b. remap m (?h ! b)) refs = map (\<lambda>b. remap m (h ! b)) refs"
    using Cons.prems by (auto simp: list_all_iff nth_append)
  moreover have "[length h ..< length h + length (a # refs)]
               = length h # [length ?h ..< length ?h + length refs]"
    by (simp add: upt_rec)
  ultimately show ?case
    using Cons.prems by (simp add: map_get_hashable remap_def)
qed

text \<open>
  Claim C5. For segments whose speakers can be hashed (a string always can), the
  remapper returns as many new objects as it was given, in the same order; each has
  the text, start and end of its original and \<open>map.get(speaker, speaker)\<close> for speaker;
  no object that was in the store is changed; and the values are those of
  \<open>apply_speaker_map\<close> on the values.
\<close>

theorem apply_speaker_map_substitution:
  assumes "list_all (\<lambda>a. a < length h \<and> hashable (speaker (h ! a))) refs"
  shows "\<exists>h' out. apply_speaker_map_store h refs m = (h', Inr out)
     \<and> take (length h) h' = h
     \<and> length out = length refs
     \<and> list_all (\<lambda>a. length h \<le> a \<and> a < length h') out
     \<and> (\<forall>i<length refs.
           text (h' ! (out ! i)) = text (h ! (refs ! i))
         \<and> start (h' ! (out ! i)) = start (h ! (refs ! i))
         \<and> end (h' ! (out ! i)) = end (h ! (refs ! i))
         \<and> speaker (h' ! (out ! i)) = speaker_name m (speaker (h ! (refs ! i))))
     \<and> apply_speaker_map (map ((!) h) refs) m = Inr (map ((!) h') out)"
proof -
  let ?new = "map (\<lambda>a. remap m (h ! a)) refs"
  let ?h' = "h @ ?new"
  let ?out = "[length h ..< length h + length refs]"
  have run: "apply_speaker_map_store h refs m = (?h', Inr ?out)"
    using remap_loop_eq [OF assms, of m "[]"] by (simp add: apply_speaker_map_store_def)
  have new: "map ((!) ?h') ?out = ?new"
    by (rule nth_equalityI) (simp_all add: nth_append)
  have fields: "\<forall>i<length refs.
           text (?h' ! (?out ! i)) = text (h ! (refs ! i))
         \<and> start (?h' ! (?out ! i)) = start (h ! (refs ! i))
         \<and> end (?h' ! (?out ! i)) = end (h ! (refs ! i))
         \<and> speaker (?h' ! (?out ! i)) = speaker_name m (speaker (h ! (refs ! i)))"
    by (simp add: nth_append remap_def)
  have pure: "apply_speaker_map (map ((!) h) refs) m = Inr (map ((!) ?h') ?out)"
    using assms unfolding new
    by (simp add: apply_speaker_map_eq list_all_iff comp_def)
  have fresh: "list_all (\<lambda>a. length h \<le> a \<and> a < length ?h') ?out"
    by (simp add: list_all_iff)
  show ?thesis
    using run fields pure fresh by (intro exI [of _ ?h'] exI [of _ ?out]) simp
qed

lemma sample_refs:
  "list_all (\<lambda>a. a < length sample_segments \<and> hashable (speaker (sample_segments ! a))) [0, 1]"
  by (simp add: sample_segments_def)

theorem apply_speaker_map_substitution_witness:
  "list_all (\<lambda>a. a < length sample_segments \<and> hashable (speaker (sample_segments ! a))) [0, 1]
   \<and> (\<exists>h' out. apply_speaker_map_store sample_segments [0, 1] [(lit ''A'', lit ''Alice'')]
          = (h', Inr out)
     \<and> take (length sample_segments) h' = sample_segments
     \<and> length out = length [0::nat, 1]
     \<and> list_all (\<lambda>a. length sample_segments \<le> a \<and> a < length h') out
     \<and> (\<forall>i<length [0::nat, 1].
           text (h' ! (out ! i)) = text (sample_segments ! ([0, 1] ! i))
         \<and> start (h' ! (out ! i)) = start (sample_segments ! ([0, 1] ! i))
         \<and> end (h' ! (out ! i)) = end (sample_segments ! ([0, 1] ! i))
         \<and> speaker (h' ! (out ! i))
             = speaker_name [(lit ''A'', lit ''Alice'')] (speaker (sample_segments ! ([0, 1] ! i))))
     \<and> apply_speaker_map (map ((!) sample_segments) [0, 1]) [(lit ''A'', lit ''Alice'')]
         = Inr (map ((!) h') out))"
  by (rule conjI [OF sample_refs apply_speaker_map_substitution [OF sample_refs]])

section \<open>Properties of the renderer\<close>


















text \<open>
  Claim C9. Loading then rendering reads the transcript file and nothing else, and
  writes nothing: in two worlds that hold the same transcript, whatever else differs,
  it gives the same result, be it a text or an error.
\<close>

theorem load_render_deterministic:
  "texts w json_path = texts w' json_path \<longrightarrow> load_render ev w json_path = load_render ev w' json_path"
  by (simp add: load_render_def load_segments_def)

theorem load_render_deterministic_witness:
  "texts sample_world (Path (lit ''t.json''))
     = texts (sample_world\<lparr>warnings := [RuntimeError]\<rparr>) (Path (lit ''t.json''))
   \<and> load_render (sample_env (document sample_records)) sample_world (Path (lit ''t.json''))
     = load_render (sample_env (document sample_records))
         (sample_world\<lparr>warnings := [RuntimeError]\<rparr>) (Path (lit ''t.json''))"
  using load_render_deterministic [of sample_world "Path (lit ''t.json'')"
      "sample_world\<lparr>warnings := [RuntimeError]\<rparr>" "sample_env (document sample_records)"]
  by simp

section \<open>Properties of the grouping and the selection\<close>






































section \<open>Properties of the reference embeddings\<close>





lemma map2_add_nth:
  "length a = d \<Longrightarrow> length v = d \<Longrightarrow> map2 (+) a v = map (\<lambda>i. a ! i + v ! i) [0..<d]"
  by (rule nth_equalityI) simp_all




















section \<open>Properties of the pipeline\<close>












end
